theory Spec2Isabelle
  imports Complex_Main
begin

section \<open>The dashboard screen of image2plate\<close>

text \<open>
  The repository holds two variants of the \<^verbatim>\<open>Dashboard\<close> component. The first is the file
  \<^verbatim>\<open>src/app/(dashboard)/index.tsx\<close>; it keeps the rendered width only and scales boxes by one
  factor. The second is the typed component in the fourth part of
  \<^verbatim>\<open>src/app/(frontpage)/_layout.tsx\<close>; it keeps \<^verbatim>\<open>renderedImageSize\<close> and scales each axis on its
  own. The first variant is embedded whole (state, handlers, overlay); of the second, the
  layout handler and the overlay, which are where it differs.

  JavaScript numbers are modelled as exact rationals: rounding of IEEE doubles is not
  modelled, and the non-finite results of a division by zero are made explicit by
  \<open>js_divide\<close>. A number is falsy exactly when it is zero (NaN does not arise).
\<close>

subsection \<open>Data\<close>

text \<open>The \<^verbatim>\<open>DetectionBBox\<close> and \<^verbatim>\<open>Detection\<close> interfaces; \<open>cls\<close> is the field \<^verbatim>\<open>class\<close>.\<close>

record detection_bbox =
  x1 :: rat
  y1 :: rat
  x2 :: rat
  y2 :: rat

record detection =
  cls :: string
  confidence :: rat
  bbox :: detection_bbox

text \<open>
  The measurements \<^verbatim>\<open>e.nativeEvent.layout\<close> of a layout event (its \<^verbatim>\<open>width\<close> and \<^verbatim>\<open>height\<close>), which
  is also the shape of \<^verbatim>\<open>RenderedImageSize\<close>.
\<close>

record layout =
  layout_width :: rat
  layout_height :: rat

text \<open>The style \<^verbatim>\<open>{ left, top, width, height }\<close> given to the box of one detection.\<close>

record screen_box =
  left :: rat
  top_ :: rat
  width :: rat
  height :: rat

text \<open>
  What \<^verbatim>\<open>renderDetectionsOverlay\<close> returns: \<^verbatim>\<open>null\<close>, or one box per detection in order.
  \<open>NonFinite\<close> stands for boxes computed from a quotient with divisor zero (Infinity or NaN).
\<close>

datatype overlay = Null | Boxes "screen_box list" | NonFinite

text \<open>
  The state cells of the component in \<^verbatim>\<open>(dashboard)/index.tsx\<close> (the \<^verbatim>\<open>useState\<close> calls), without
  \<^verbatim>\<open>displayName\<close> and \<^verbatim>\<open>isLoggedIn\<close>, which only the authentication code touches.
\<close>

record dashboard =
  imageUri :: "string option"
  backendIP :: string
  detections :: "detection list"
  loading :: bool
  originalWidth :: rat
  originalHeight :: rat
  renderedWidth :: rat

definition initial :: dashboard where
  "initial = \<lparr>imageUri = None, backendIP = [], detections = [], loading = False,
     originalWidth = 0, originalHeight = 0, renderedWidth = 0\<rparr>"

subsection \<open>Coordinate mapping\<close>

definition js_divide :: "rat \<Rightarrow> rat \<Rightarrow> rat option" where
  "js_divide a b = (if b = 0 then None else Some (a / b))"

text \<open>The body of the \<^verbatim>\<open>detections.map\<close> callback of \<^verbatim>\<open>(dashboard)/index.tsx\<close>: one scale.\<close>

definition box_of :: "rat \<Rightarrow> detection \<Rightarrow> screen_box" where
  "box_of scale det =
     \<lparr>left = x1 (bbox det) * scale,
      top_ = y1 (bbox det) * scale,
      width = (x2 (bbox det) - x1 (bbox det)) * scale,
      height = (y2 (bbox det) - y1 (bbox det)) * scale\<rparr>"

definition renderDetectionsOverlay :: "dashboard \<Rightarrow> overlay" where
  "renderDetectionsOverlay s =
     (if renderedWidth s = 0 \<or> originalWidth s = 0 then Null
      else case js_divide (renderedWidth s) (originalWidth s) of
             None \<Rightarrow> NonFinite
           | Some scale \<Rightarrow> Boxes (map (box_of scale) (detections s)))"

text \<open>Both \<^verbatim>\<open>onLayout\<close> handlers of \<^verbatim>\<open>(dashboard)/index.tsx\<close>: the measured width is stored.\<close>

definition onLayout :: "layout \<Rightarrow> dashboard \<Rightarrow> dashboard" where
  "onLayout e s = s\<lparr>renderedWidth := layout_width e\<rparr>"

text \<open>
  The typed variant. \<open>onImageLayout\<close> replaces the cell \<^verbatim>\<open>renderedImageSize\<close> (the second
  argument is the old value); the overlay reads \<^verbatim>\<open>renderedImageSize\<close>, \<^verbatim>\<open>originalWidth\<close>,
  \<^verbatim>\<open>originalHeight\<close> and \<^verbatim>\<open>detections\<close>. The border colour of a box is left out.
\<close>

definition onImageLayout :: "layout \<Rightarrow> layout \<Rightarrow> layout" where
  "onImageLayout e renderedImageSize =
     \<lparr>layout_width = layout_width e, layout_height = layout_height e\<rparr>"

definition box_of_typed :: "rat \<Rightarrow> rat \<Rightarrow> detection \<Rightarrow> screen_box" where
  "box_of_typed scaleWidth scaleHeight det =
     \<lparr>left = x1 (bbox det) * scaleWidth,
      top_ = y1 (bbox det) * scaleHeight,
      width = (x2 (bbox det) - x1 (bbox det)) * scaleWidth,
      height = (y2 (bbox det) - y1 (bbox det)) * scaleHeight\<rparr>"

definition renderDetectionsOverlay_typed ::
  "layout \<Rightarrow> rat \<Rightarrow> rat \<Rightarrow> detection list \<Rightarrow> overlay" where
  "renderDetectionsOverlay_typed renderedImageSize origWidth origHeight dets =
     (if layout_width renderedImageSize = 0 \<or> origWidth = 0 \<or> origHeight = 0 then Null
      else case js_divide (layout_width renderedImageSize) origWidth of
             None \<Rightarrow> NonFinite
           | Some scaleWidth \<Rightarrow>
               (case js_divide (layout_height renderedImageSize) origHeight of
                  None \<Rightarrow> NonFinite
                | Some scaleHeight \<Rightarrow> Boxes (map (box_of_typed scaleWidth scaleHeight) dets)))"

subsection \<open>Strings\<close>

text \<open>
  A character stands for the UTF-16 code unit of the same number; strings with code units
  above 255 are outside the model. \<open>is_whitespace\<close> lists the white space and line
  terminators of ECMAScript in that range, which is what \<^verbatim>\<open>String.prototype.trim\<close> strips.
\<close>

definition is_whitespace :: "char \<Rightarrow> bool" where
  "is_whitespace c = (of_char c \<in> {9, 10, 11, 12, 13, 32, 160 :: nat})"

definition trim :: "string \<Rightarrow> string" where
  "trim t = rev (dropWhile is_whitespace (rev (dropWhile is_whitespace t)))"

text \<open>The test \<^verbatim>\<open>!imageUri\<close> on a value of type \<^verbatim>\<open>string | null\<close>.\<close>

definition falsy_uri :: "string option \<Rightarrow> bool" where
  "falsy_uri u = (case u of None \<Rightarrow> True | Some v \<Rightarrow> v = [])"

subsection \<open>Effects of the handlers\<close>

text \<open>The \<^verbatim>\<open>fetch\<close> call of \<^verbatim>\<open>sendToBackend\<close>: URL, method, header, and the one form field.\<close>

record request =
  url :: string
  http_method :: string
  content_type :: string
  field_name :: string
  file_uri :: string
  file_name :: string
  file_type :: string

text \<open>
  What a handler asks of its environment: \<^verbatim>\<open>Alert.alert(title, message)\<close>, \<^verbatim>\<open>fetch\<close>, and
  \<^verbatim>\<open>Image.getSize(uri, ...)\<close>. Calls of \<^verbatim>\<open>console\<close> are left out.
\<close>

datatype effect = Alert string string | Fetch request | GetSize string

fun is_fetch :: "effect \<Rightarrow> bool" where
  "is_fetch (Fetch r) = True"
| "is_fetch _ = False"

subsection \<open>pickImage\<close>

text \<open>
  How the two awaits of \<^verbatim>\<open>pickImage\<close> end: permission not granted, camera cancelled, or a
  picture with the URI \<^verbatim>\<open>result.assets[0].uri\<close>. The state is written only after both.
\<close>

datatype capture = Denied | Canceled | Captured string

definition pickImage :: "capture \<Rightarrow> dashboard \<Rightarrow> dashboard \<times> effect list" where
  "pickImage c s =
     (case c of
        Denied \<Rightarrow>
          (s, [Alert ''Permission Denied'' ''Camera access is required to take pictures.''])
      | Canceled \<Rightarrow> (s, [])
      | Captured uri \<Rightarrow> (s\<lparr>imageUri := Some uri, detections := []\<rparr>, [GetSize uri]))"

text \<open>The success callback given to \<^verbatim>\<open>Image.getSize\<close>; the error callback only logs.\<close>

definition getSize_success :: "rat \<Rightarrow> rat \<Rightarrow> dashboard \<Rightarrow> dashboard" where
  "getSize_success w h s = s\<lparr>originalWidth := w, originalHeight := h\<rparr>"

subsection \<open>sendToBackend\<close>

text \<open>
  \<^verbatim>\<open>sendToBackend\<close> is split at its \<^verbatim>\<open>await fetch(...)\<close>: \<open>sendToBackend\<close> is the part that runs
  when the handler is called, \<open>sendToBackend_resume\<close> the part that runs when the request
  has settled (the rest of \<^verbatim>\<open>try\<close>, \<^verbatim>\<open>catch\<close> and \<^verbatim>\<open>finally\<close>).
\<close>

definition sendToBackend :: "dashboard \<Rightarrow> dashboard \<times> effect list" where
  "sendToBackend s =
     (if trim (backendIP s) = [] then
        (s, [Alert ''Missing IP'' ''Please enter the backend server IP.''])
      else if falsy_uri (imageUri s) then
        (s, [Alert ''No Image'' ''Please capture an image first.''])
      else
        (s\<lparr>loading := True\<rparr>,
         [Fetch \<lparr>url = ''http://'' @ backendIP s @ '':8000/detect'',
                 http_method = ''POST'',
                 content_type = ''multipart/form-data'',
                 field_name = ''file'',
                 file_uri = the (imageUri s),
                 file_name = ''image.jpg'',
                 file_type = ''image/jpeg''\<rparr>]))"

text \<open>
  What \<^verbatim>\<open>await response.json()\<close> gives: a rejection (the body is not JSON), the value
  \<^verbatim>\<open>null\<close> (reading a property of it throws), or an object, of which \<^verbatim>\<open>data.detections\<close> and
  \<^verbatim>\<open>data.error\<close> are read (\<open>None\<close>: no \<^verbatim>\<open>error\<close> member). A body whose \<^verbatim>\<open>detections\<close> member
  is not an array of \<^verbatim>\<open>Detection\<close> objects is outside the model.
\<close>

datatype json_body = Unparsable | JNull | JObject "detection list" "string option"

text \<open>How the request settles: \<^verbatim>\<open>fetch\<close> rejects, or a response with \<^verbatim>\<open>response.ok\<close> and a body.\<close>

datatype outcome = Rejected | Response bool json_body

definition could_not_connect :: "dashboard \<Rightarrow> dashboard \<times> effect list" where
  "could_not_connect s =
     (s\<lparr>loading := False\<rparr>, [Alert ''Error'' ''Could not connect to backend.''])"

fun sendToBackend_resume :: "outcome \<Rightarrow> dashboard \<Rightarrow> dashboard \<times> effect list" where
  "sendToBackend_resume Rejected s = could_not_connect s"
| "sendToBackend_resume (Response ok Unparsable) s = could_not_connect s"
| "sendToBackend_resume (Response ok JNull) s = could_not_connect s"
| "sendToBackend_resume (Response ok (JObject dets err)) s =
     (if ok then (s\<lparr>detections := dets, loading := False\<rparr>, [])
      else (s\<lparr>loading := False\<rparr>,
            [Alert ''Error''
               (case err of
                  None \<Rightarrow> ''Failed to process image.''
                | Some m \<Rightarrow> if m = [] then ''Failed to process image.'' else m)]))"

text \<open>The outcomes that end in \<^verbatim>\<open>catch\<close> or in the \<^verbatim>\<open>else\<close> branch of \<^verbatim>\<open>response.ok\<close>.\<close>

fun error_path :: "outcome \<Rightarrow> bool" where
  "error_path Rejected = True"
| "error_path (Response ok Unparsable) = True"
| "error_path (Response ok JNull) = True"
| "error_path (Response ok (JObject dets err)) = (\<not> ok)"

subsection \<open>The screen as a transition system\<close>

text \<open>
  The component state together with what is pending outside it: the requests in flight,
  the \<^verbatim>\<open>Image.getSize\<close> calls not yet answered, and the alerts shown so far.
\<close>

record world =
  ui :: dashboard
  inflight :: "request list"
  sizing :: "string list"
  alerts :: "(string \<times> string) list"

definition init_world :: world where
  "init_world = \<lparr>ui = initial, inflight = [], sizing = [], alerts = []\<rparr>"

fun perform :: "effect \<Rightarrow> world \<Rightarrow> world" where
  "perform (Alert title msg) w = w\<lparr>alerts := alerts w @ [(title, msg)]\<rparr>"
| "perform (Fetch r) w = w\<lparr>inflight := inflight w @ [r]\<rparr>"
| "perform (GetSize uri) w = w\<lparr>sizing := sizing w @ [uri]\<rparr>"

definition run_handler :: "(dashboard \<Rightarrow> dashboard \<times> effect list) \<Rightarrow> world \<Rightarrow> world" where
  "run_handler h w = (case h (ui w) of (s, effs) \<Rightarrow> fold perform effs (w\<lparr>ui := s\<rparr>))"

definition remove_nth :: "nat \<Rightarrow> 'a list \<Rightarrow> 'a list" where
  "remove_nth i xs = take i xs @ drop (Suc i) xs"

text \<open>
  The process button is rendered under \<^verbatim>\<open>imageUri && detections.length === 0\<close> and carries
  \<^verbatim>\<open>disabled={loading}\<close>; a press calls \<^verbatim>\<open>sendToBackend\<close> only when it is rendered and enabled.
\<close>

definition processButton_rendered :: "dashboard \<Rightarrow> bool" where
  "processButton_rendered s = (\<not> falsy_uri (imageUri s) \<and> detections s = [])"

definition press_processButton :: "world \<Rightarrow> world" where
  "press_processButton w =
     (if processButton_rendered (ui w) \<and> \<not> loading (ui w) then run_handler sendToBackend w
      else w)"

text \<open>
  The events of the screen: text typed into the address field, the capture card pressed
  (with how the capture ends), an answer to the \<open>i\<close>-th pending \<^verbatim>\<open>Image.getSize\<close>, a layout
  pass of the image container (rendered when \<^verbatim>\<open>imageUri\<close> is truthy), the process button
  pressed, and the \<open>i\<close>-th request in flight settling.
\<close>

datatype event =
    ChangeText string
  | PressCapture capture
  | SizeResolved nat rat rat
  | SizeFailed nat
  | LayoutPass layout
  | PressProcess
  | Settled nat outcome

fun step :: "event \<Rightarrow> world \<Rightarrow> world" where
  "step (ChangeText t) w = w\<lparr>ui := (ui w)\<lparr>backendIP := t\<rparr>\<rparr>"
| "step (PressCapture c) w = run_handler (pickImage c) w"
| "step (SizeResolved i wd ht) w =
     (if i < length (sizing w)
      then w\<lparr>sizing := remove_nth i (sizing w), ui := getSize_success wd ht (ui w)\<rparr>
      else w)"
| "step (SizeFailed i) w =
     (if i < length (sizing w) then w\<lparr>sizing := remove_nth i (sizing w)\<rparr> else w)"
| "step (LayoutPass e) w =
     (if falsy_uri (imageUri (ui w)) then w else w\<lparr>ui := onLayout e (ui w)\<rparr>)"
| "step PressProcess w = press_processButton w"
| "step (Settled i out) w =
     (if i < length (inflight w)
      then run_handler (sendToBackend_resume out) (w\<lparr>inflight := remove_nth i (inflight w)\<rparr>)
      else w)"

fun run :: "event list \<Rightarrow> world \<Rightarrow> world" where
  "run [] w = w"
| "run (e # es) w = run es (step e w)"

inductive reachable :: "world \<Rightarrow> bool" where
  start: "reachable init_world"
| next_event: "reachable w \<Longrightarrow> reachable (step e w)"

subsection \<open>The normalisation of the specification\<close>

text \<open>
  The source has no validation of detections. \<open>spec_valid\<close> and \<open>spec_normalize\<close> follow the
  words of the specification (confidence in [0,1], box not inverted), to compare with what
  the response handler stores.
\<close>

definition spec_valid :: "detection \<Rightarrow> bool" where
  "spec_valid d =
     (0 \<le> confidence d \<and> confidence d \<le> 1 \<and>
      x1 (bbox d) < x2 (bbox d) \<and> y1 (bbox d) < y2 (bbox d))"

definition spec_normalize :: "detection list \<Rightarrow> detection list" where
  "spec_normalize dets = filter spec_valid dets"

section \<open>Properties\<close>

subsection \<open>Coordinate mapping\<close>

text \<open>
  Claim C1, as the code has it. With positive natural and rendered dimensions, the overlay of
  \<^verbatim>\<open>(dashboard)/index.tsx\<close> uses the single scale rendered width / natural width on both
  axes: left = x1 * scale, top = y1 * scale, width = (x2 - x1) * scale and
  height = (y2 - y1) * scale; the rendered height is never stored. The typed variant
  computes the two independent scales rendered width / natural width and
  rendered height / natural height and returns left = x1 * scaleX, top = y1 * scaleY,
  width = (x2 - x1) * scaleX, height = (y2 - y1) * scaleY.
\<close>

theorem mapping_scales:
  assumes "0 < originalWidth s" and "0 < originalHeight s"
    and "0 < layout_width e" and "0 < layout_height e"
  shows "renderDetectionsOverlay (onLayout e s) =
           Boxes (map (\<lambda>d. \<lparr>left = x1 (bbox d) * (layout_width e / originalWidth s),
                            top_ = y1 (bbox d) * (layout_width e / originalWidth s),
                            width = (x2 (bbox d) - x1 (bbox d)) * (layout_width e / originalWidth s),
                            height = (y2 (bbox d) - y1 (bbox d)) * (layout_width e / originalWidth s)\<rparr>)
                      (detections s))
       \<and> renderDetectionsOverlay_typed (onImageLayout e r) (originalWidth s) (originalHeight s)
             (detections s) =
           Boxes (map (\<lambda>d. \<lparr>left = x1 (bbox d) * (layout_width e / originalWidth s),
                            top_ = y1 (bbox d) * (layout_height e / originalHeight s),
                            width = (x2 (bbox d) - x1 (bbox d)) * (layout_width e / originalWidth s),
                            height = (y2 (bbox d) - y1 (bbox d)) * (layout_height e / originalHeight s)\<rparr>)
                      (detections s))"
proof -
  let ?sx = "layout_width e / originalWidth s"
  let ?sy = "layout_height e / originalHeight s"
  have nz: "layout_width e \<noteq> 0" "originalWidth s \<noteq> 0" "originalHeight s \<noteq> 0"
    using assms by simp_all
  have one: "box_of ?sx =
      (\<lambda>d. \<lparr>left = x1 (bbox d) * ?sx, top_ = y1 (bbox d) * ?sx,
             width = (x2 (bbox d) - x1 (bbox d)) * ?sx,
             height = (y2 (bbox d) - y1 (bbox d)) * ?sx\<rparr>)"
    by (rule ext) (simp add: box_of_def)
  have two: "box_of_typed ?sx ?sy =
      (\<lambda>d. \<lparr>left = x1 (bbox d) * ?sx, top_ = y1 (bbox d) * ?sy,
             width = (x2 (bbox d) - x1 (bbox d)) * ?sx,
             height = (y2 (bbox d) - y1 (bbox d)) * ?sy\<rparr>)"
    by (rule ext) (simp add: box_of_typed_def)
  show ?thesis
    using nz
    by (simp add: renderDetectionsOverlay_def renderDetectionsOverlay_typed_def onLayout_def
        onImageLayout_def js_divide_def one two)
qed

text \<open>
  An image of 1000 x 800 laid out at 500 x 250 with the box (100, 100, 300, 300): the first
  component puts it at (50, 50) with size 100 x 100, the typed one at (50, 31.25) with size
  100 x 62.5.
\<close>

theorem mapping_scales_witness:
  "renderDetectionsOverlay
     (onLayout \<lparr>layout_width = 500, layout_height = 250\<rparr>
        \<lparr>imageUri = Some ''file:///a.jpg'', backendIP = ''10.0.0.5'',
         detections = [\<lparr>cls = ''apple'', confidence = 92 / 100,
                        bbox = \<lparr>x1 = 100, y1 = 100, x2 = 300, y2 = 300\<rparr>\<rparr>],
         loading = False, originalWidth = 1000, originalHeight = 800, renderedWidth = 0\<rparr>)
     = Boxes [\<lparr>left = 50, top_ = 50, width = 100, height = 100\<rparr>]
   \<and> renderDetectionsOverlay_typed
       (onImageLayout \<lparr>layout_width = 500, layout_height = 250\<rparr>
          \<lparr>layout_width = 0, layout_height = 0\<rparr>)
       1000 800
       [\<lparr>cls = ''apple'', confidence = 92 / 100,
         bbox = \<lparr>x1 = 100, y1 = 100, x2 = 300, y2 = 300\<rparr>\<rparr>]
     = Boxes [\<lparr>left = 50, top_ = 125 / 4, width = 100, height = 125 / 2\<rparr>]"
  using mapping_scales [of "\<lparr>imageUri = Some ''file:///a.jpg'', backendIP = ''10.0.0.5'',
         detections = [\<lparr>cls = ''apple'', confidence = 92 / 100,
                        bbox = \<lparr>x1 = 100, y1 = 100, x2 = 300, y2 = 300\<rparr>\<rparr>],
         loading = False, originalWidth = 1000, originalHeight = 800, renderedWidth = 0\<rparr>"
       "\<lparr>layout_width = 500, layout_height = 250\<rparr>" "\<lparr>layout_width = 0, layout_height = 0\<rparr>"]
  by simp

text \<open>
  Claim C1 as stated fails on \<^verbatim>\<open>(dashboard)/index.tsx\<close>: at the same input the box it returns
  is not the one with top = y1 * (rendered height / natural height) and
  height = (y2 - y1) * (rendered height / natural height).
\<close>

theorem mapping_scales_counterexample:
  "renderDetectionsOverlay
     (onLayout \<lparr>layout_width = 500, layout_height = 250\<rparr>
        \<lparr>imageUri = Some ''file:///a.jpg'', backendIP = ''10.0.0.5'',
         detections = [\<lparr>cls = ''apple'', confidence = 92 / 100,
                        bbox = \<lparr>x1 = 100, y1 = 100, x2 = 300, y2 = 300\<rparr>\<rparr>],
         loading = False, originalWidth = 1000, originalHeight = 800, renderedWidth = 0\<rparr>)
     = Boxes [\<lparr>left = 50, top_ = 50, width = 100, height = 100\<rparr>]
   \<and> \<lparr>left = 50, top_ = 50, width = 100, height = 100\<rparr>
     \<noteq> \<lparr>left = 100 * (500 / 1000), top_ = 100 * (250 / 800),
        width = (300 - 100) * (500 / 1000), height = (300 - 100) * (250 / 800 :: rat)\<rparr>"
  by (simp add: renderDetectionsOverlay_def onLayout_def js_divide_def box_of_def)

text \<open>
  Claim C2, as the code has it. With positive natural and rendered dimensions, a box equal to
  the full natural rectangle is mapped by \<^verbatim>\<open>(dashboard)/index.tsx\<close> with the single
  scale = rendered width / natural width to left = 0 * scale, top = 0 * scale,
  width = (natural width - 0) * scale and height = (natural height - 0) * scale, a result
  that does not depend on the rendered height. The typed variant maps it to
  left = 0 * scaleX, top = 0 * scaleY, width = (natural width - 0) * scaleX and
  height = (natural height - 0) * scaleY with scaleX = rendered width / natural width and
  scaleY = rendered height / natural height. The products are left as the code computes
  them: that natural width * (rendered width / natural width) is the rendered width is true
  of exact numbers and, in floating point, only up to rounding.
\<close>

theorem full_rectangle:
  assumes "0 < originalWidth s" and "0 < originalHeight s"
    and "0 < layout_width e" and "0 < layout_height e"
    and "bbox d = \<lparr>x1 = 0, y1 = 0, x2 = originalWidth s, y2 = originalHeight s\<rparr>"
  shows "renderDetectionsOverlay (onLayout e (s\<lparr>detections := [d]\<rparr>)) =
           Boxes [\<lparr>left = 0 * (layout_width e / originalWidth s),
                   top_ = 0 * (layout_width e / originalWidth s),
                   width = (originalWidth s - 0) * (layout_width e / originalWidth s),
                   height = (originalHeight s - 0) * (layout_width e / originalWidth s)\<rparr>]
       \<and> renderDetectionsOverlay (onLayout (e\<lparr>layout_height := h\<rparr>) (s\<lparr>detections := [d]\<rparr>)) =
           renderDetectionsOverlay (onLayout e (s\<lparr>detections := [d]\<rparr>))
       \<and> renderDetectionsOverlay_typed (onImageLayout e r) (originalWidth s) (originalHeight s) [d] =
           Boxes [\<lparr>left = 0 * (layout_width e / originalWidth s),
                   top_ = 0 * (layout_height e / originalHeight s),
                   width = (originalWidth s - 0) * (layout_width e / originalWidth s),
                   height = (originalHeight s - 0) * (layout_height e / originalHeight s)\<rparr>]"
proof -
  have nz: "layout_width e \<noteq> 0" "originalWidth s \<noteq> 0" "originalHeight s \<noteq> 0"
    using assms(1-3) by simp_all
  have guard: "\<not> (layout_width e = 0 \<or> originalWidth s = 0)"
    "\<not> (layout_width e = 0 \<or> originalWidth s = 0 \<or> originalHeight s = 0)"
    using nz by simp_all
  have corners: "x1 (bbox d) = 0" "y1 (bbox d) = 0"
    "x2 (bbox d) = originalWidth s" "y2 (bbox d) = originalHeight s"
    by (simp_all only: assms(5) detection_bbox.simps)
  have cells: "renderedWidth (onLayout e (s\<lparr>detections := [d]\<rparr>)) = layout_width e"
    "originalWidth (onLayout e (s\<lparr>detections := [d]\<rparr>)) = originalWidth s"
    "detections (onLayout e (s\<lparr>detections := [d]\<rparr>)) = [d]"
    by (simp_all add: onLayout_def)
  have measured: "layout_width (onImageLayout e r) = layout_width e"
    "layout_height (onImageLayout e r) = layout_height e"
    by (simp_all add: onImageLayout_def)
  have one: "renderDetectionsOverlay (onLayout e (s\<lparr>detections := [d]\<rparr>)) =
           Boxes [\<lparr>left = 0 * (layout_width e / originalWidth s),
                   top_ = 0 * (layout_width e / originalWidth s),
                   width = (originalWidth s - 0) * (layout_width e / originalWidth s),
                   height = (originalHeight s - 0) * (layout_width e / originalWidth s)\<rparr>]"
    unfolding renderDetectionsOverlay_def js_divide_def box_of_def
    by (simp only: cells guard nz corners simp_thms if_False option.case list.map)
  have same: "renderDetectionsOverlay (onLayout (e\<lparr>layout_height := h\<rparr>) (s\<lparr>detections := [d]\<rparr>)) =
           renderDetectionsOverlay (onLayout e (s\<lparr>detections := [d]\<rparr>))"
    by (simp add: onLayout_def)
  have two: "renderDetectionsOverlay_typed (onImageLayout e r) (originalWidth s) (originalHeight s) [d] =
           Boxes [\<lparr>left = 0 * (layout_width e / originalWidth s),
                   top_ = 0 * (layout_height e / originalHeight s),
                   width = (originalWidth s - 0) * (layout_width e / originalWidth s),
                   height = (originalHeight s - 0) * (layout_height e / originalHeight s)\<rparr>]"
    unfolding renderDetectionsOverlay_typed_def js_divide_def box_of_typed_def
    by (simp only: measured guard nz corners simp_thms if_False option.case list.map)
  from one same two show ?thesis
    by (intro conjI)
qed

theorem full_rectangle_witness:
  "renderDetectionsOverlay
     (onLayout \<lparr>layout_width = 500, layout_height = 250\<rparr>
        \<lparr>imageUri = Some ''file:///a.jpg'', backendIP = ''10.0.0.5'',
         detections = [\<lparr>cls = ''plate'', confidence = 1,
                        bbox = \<lparr>x1 = 0, y1 = 0, x2 = 1000, y2 = 800\<rparr>\<rparr>],
         loading = False, originalWidth = 1000, originalHeight = 800, renderedWidth = 0\<rparr>)
     = Boxes [\<lparr>left = 0, top_ = 0, width = 500, height = 400\<rparr>]
   \<and> renderDetectionsOverlay
     (onLayout \<lparr>layout_width = 500, layout_height = 400\<rparr>
        \<lparr>imageUri = Some ''file:///a.jpg'', backendIP = ''10.0.0.5'',
         detections = [\<lparr>cls = ''plate'', confidence = 1,
                        bbox = \<lparr>x1 = 0, y1 = 0, x2 = 1000, y2 = 800\<rparr>\<rparr>],
         loading = False, originalWidth = 1000, originalHeight = 800, renderedWidth = 0\<rparr>)
     = Boxes [\<lparr>left = 0, top_ = 0, width = 500, height = 400\<rparr>]
   \<and> renderDetectionsOverlay_typed
       (onImageLayout \<lparr>layout_width = 500, layout_height = 250\<rparr>
          \<lparr>layout_width = 0, layout_height = 0\<rparr>)
       1000 800
       [\<lparr>cls = ''plate'', confidence = 1, bbox = \<lparr>x1 = 0, y1 = 0, x2 = 1000, y2 = 800\<rparr>\<rparr>]
     = Boxes [\<lparr>left = 0, top_ = 0, width = 500, height = 250\<rparr>]"
  using full_rectangle [of "\<lparr>imageUri = Some ''file:///a.jpg'', backendIP = ''10.0.0.5'',
         detections = [],
         loading = False, originalWidth = 1000, originalHeight = 800, renderedWidth = 0\<rparr>"
       "\<lparr>layout_width = 500, layout_height = 250\<rparr>"
       "\<lparr>cls = ''plate'', confidence = 1, bbox = \<lparr>x1 = 0, y1 = 0, x2 = 1000, y2 = 800\<rparr>\<rparr>"
       400 "\<lparr>layout_width = 0, layout_height = 0\<rparr>"]
  by simp

text \<open>
  Claim C2 as stated fails on \<^verbatim>\<open>(dashboard)/index.tsx\<close>: the full rectangle of a 1000 x 800
  image laid out at 500 x 250 is not mapped to the full rendered rectangle (its height
  comes out as 400).
\<close>

theorem full_rectangle_counterexample:
  "renderDetectionsOverlay
     (onLayout \<lparr>layout_width = 500, layout_height = 250\<rparr>
        \<lparr>imageUri = Some ''file:///a.jpg'', backendIP = ''10.0.0.5'',
         detections = [\<lparr>cls = ''plate'', confidence = 1,
                        bbox = \<lparr>x1 = 0, y1 = 0, x2 = 1000, y2 = 800\<rparr>\<rparr>],
         loading = False, originalWidth = 1000, originalHeight = 800, renderedWidth = 0\<rparr>)
     \<noteq> Boxes [\<lparr>left = 0, top_ = 0, width = 500, height = 250\<rparr>]"
  by (simp add: renderDetectionsOverlay_def onLayout_def js_divide_def box_of_def)

text \<open>
  Claim C7, as the code has it. The overlay of \<^verbatim>\<open>(dashboard)/index.tsx\<close> is unavailable
  (\<^verbatim>\<open>null\<close>) exactly when the rendered width or the natural width is zero; that of the typed
  variant exactly when the rendered width, the natural width or the natural height is zero.
  The rendered height is not tested, and values below zero are not rejected. Neither overlay
  ever divides by zero.
\<close>

theorem unavailable_guard:
  "(renderDetectionsOverlay s = Null \<longleftrightarrow> renderedWidth s = 0 \<or> originalWidth s = 0)
   \<and> renderDetectionsOverlay s \<noteq> NonFinite
   \<and> (renderDetectionsOverlay_typed r ow oh dets = Null \<longleftrightarrow>
        layout_width r = 0 \<or> ow = 0 \<or> oh = 0)
   \<and> renderDetectionsOverlay_typed r ow oh dets \<noteq> NonFinite"
  by (simp add: renderDetectionsOverlay_def renderDetectionsOverlay_typed_def js_divide_def)

theorem unavailable_guard_witness:
  "renderDetectionsOverlay
        \<lparr>imageUri = Some ''file:///a.jpg'', backendIP = ''10.0.0.5'',
         detections = [\<lparr>cls = ''apple'', confidence = 92 / 100,
                        bbox = \<lparr>x1 = 100, y1 = 100, x2 = 300, y2 = 300\<rparr>\<rparr>],
         loading = False, originalWidth = 0, originalHeight = 800, renderedWidth = 500\<rparr> = Null
   \<and> renderDetectionsOverlay_typed \<lparr>layout_width = 500, layout_height = 250\<rparr> 1000 0
       [\<lparr>cls = ''apple'', confidence = 92 / 100,
         bbox = \<lparr>x1 = 100, y1 = 100, x2 = 300, y2 = 300\<rparr>\<rparr>] = Null"
  using unavailable_guard [of "\<lparr>imageUri = Some ''file:///a.jpg'', backendIP = ''10.0.0.5'',
         detections = [\<lparr>cls = ''apple'', confidence = 92 / 100,
                        bbox = \<lparr>x1 = 100, y1 = 100, x2 = 300, y2 = 300\<rparr>\<rparr>],
         loading = False, originalWidth = 0, originalHeight = 800, renderedWidth = 500\<rparr>"
         "\<lparr>layout_width = 500, layout_height = 250\<rparr>" 1000 0
         "[\<lparr>cls = ''apple'', confidence = 92 / 100,
         bbox = \<lparr>x1 = 100, y1 = 100, x2 = 300, y2 = 300\<rparr>\<rparr>]"]
  by simp

text \<open>
  Claim C7 as stated fails: with a rendered height of zero (1000 x 800 image, layout 500 x 0)
  both overlays still produce a box.
\<close>

theorem unavailable_guard_counterexample:
  "renderDetectionsOverlay
     (onLayout \<lparr>layout_width = 500, layout_height = 0\<rparr>
        \<lparr>imageUri = Some ''file:///a.jpg'', backendIP = ''10.0.0.5'',
         detections = [\<lparr>cls = ''apple'', confidence = 92 / 100,
                        bbox = \<lparr>x1 = 100, y1 = 100, x2 = 300, y2 = 300\<rparr>\<rparr>],
         loading = False, originalWidth = 1000, originalHeight = 800, renderedWidth = 0\<rparr>)
     = Boxes [\<lparr>left = 50, top_ = 50, width = 100, height = 100\<rparr>]
   \<and> renderDetectionsOverlay_typed \<lparr>layout_width = 500, layout_height = 0\<rparr> 1000 800
       [\<lparr>cls = ''apple'', confidence = 92 / 100,
         bbox = \<lparr>x1 = 100, y1 = 100, x2 = 300, y2 = 300\<rparr>\<rparr>]
     = Boxes [\<lparr>left = 50, top_ = 0, width = 100, height = 0\<rparr>]"
  by (simp add: renderDetectionsOverlay_def renderDetectionsOverlay_typed_def onLayout_def
      js_divide_def box_of_def box_of_typed_def)

subsection \<open>Layout tracking\<close>


subsection \<open>Upload\<close>

text \<open>The definitions unfolded when a handler or a run of events is evaluated.\<close>

lemmas eval_defs = init_world_def initial_def run_handler_def pickImage_def sendToBackend_def
  trim_def is_whitespace_def falsy_uri_def press_processButton_def processButton_rendered_def
  remove_nth_def getSize_success_def onLayout_def could_not_connect_def

text \<open>The guard \<^verbatim>\<open>!backendIP.trim()\<close> holds exactly for the empty and the all-white-space strings.\<close>

lemma trim_empty_iff: "trim t = [] \<longleftrightarrow> (\<forall>c \<in> set t. is_whitespace c)"
proof (cases "dropWhile is_whitespace t")
  case Nil
  then have all: "\<forall>c \<in> set t. is_whitespace c"
    by (simp only: dropWhile_eq_Nil_conv)
  have "trim t = []"
    unfolding trim_def Nil by simp
  with all show ?thesis
    by simp
next
  case (Cons a as)
  then have a: "\<not> is_whitespace a"
    by (metis hd_dropWhile list.sel(1) list.distinct(1))
  have "a \<in> set t"
    by (metis Cons list.set_intros(1) set_dropWhileD)
  with a have "\<not> (\<forall>c \<in> set t. is_whitespace c)"
    by blast
  moreover have "trim t \<noteq> []"
    using a Cons by (auto simp add: trim_def)
  ultimately show ?thesis
    by simp
qed

text \<open>
  Claim C8, as the code has it. If the address is empty or consists of white space only,
  \<^verbatim>\<open>sendToBackend\<close> shows the alert ``Missing IP'' and issues no request; otherwise, if the
  image URI is null or empty, it shows the alert ``No Image'' and issues no request; in both
  cases the state is unchanged. Otherwise it sets the loading flag and issues exactly one
  request, a multipart POST to \<^verbatim>\<open>http://<address>:8000/detect\<close> with the field \<^verbatim>\<open>file\<close>. Whatever the
  outcome, the rest of the handler issues no further request (no retry).
\<close>

theorem sendToBackend_preconditions:
  "((\<forall>c \<in> set (backendIP s). is_whitespace c) \<longrightarrow>
      sendToBackend s = (s, [Alert ''Missing IP'' ''Please enter the backend server IP.'']))
   \<and> (\<not> (\<forall>c \<in> set (backendIP s). is_whitespace c) \<and> falsy_uri (imageUri s) \<longrightarrow>
      sendToBackend s = (s, [Alert ''No Image'' ''Please capture an image first.'']))
   \<and> (\<not> (\<forall>c \<in> set (backendIP s). is_whitespace c) \<and> imageUri s = Some uri \<and> uri \<noteq> [] \<longrightarrow>
      sendToBackend s =
        (s\<lparr>loading := True\<rparr>,
         [Fetch \<lparr>url = ''http://'' @ backendIP s @ '':8000/detect'', http_method = ''POST'',
                 content_type = ''multipart/form-data'', field_name = ''file'',
                 file_uri = uri, file_name = ''image.jpg'', file_type = ''image/jpeg''\<rparr>]))
   \<and> filter is_fetch (snd (sendToBackend_resume out s')) = []"
proof -
  have "filter is_fetch (snd (sendToBackend_resume out s')) = []"
    by (cases "(out, s')" rule: sendToBackend_resume.cases) (simp_all add: could_not_connect_def)
  then show ?thesis
    by (simp add: sendToBackend_def trim_empty_iff falsy_uri_def)
qed

theorem sendToBackend_preconditions_witness:
  "sendToBackend \<lparr>imageUri = Some ''file:///a.jpg'', backendIP = '''', detections = [],
       loading = False, originalWidth = 0, originalHeight = 0, renderedWidth = 0\<rparr>
     = (\<lparr>imageUri = Some ''file:///a.jpg'', backendIP = '''', detections = [],
       loading = False, originalWidth = 0, originalHeight = 0, renderedWidth = 0\<rparr>,
        [Alert ''Missing IP'' ''Please enter the backend server IP.''])
   \<and> sendToBackend \<lparr>imageUri = None, backendIP = ''10.0.0.5'', detections = [],
       loading = False, originalWidth = 0, originalHeight = 0, renderedWidth = 0\<rparr>
     = (\<lparr>imageUri = None, backendIP = ''10.0.0.5'', detections = [],
       loading = False, originalWidth = 0, originalHeight = 0, renderedWidth = 0\<rparr>,
        [Alert ''No Image'' ''Please capture an image first.''])
   \<and> sendToBackend \<lparr>imageUri = Some ''file:///a.jpg'', backendIP = ''10.0.0.5'', detections = [],
       loading = False, originalWidth = 0, originalHeight = 0, renderedWidth = 0\<rparr>
     = (\<lparr>imageUri = Some ''file:///a.jpg'', backendIP = ''10.0.0.5'', detections = [],
       loading = True, originalWidth = 0, originalHeight = 0, renderedWidth = 0\<rparr>,
        [Fetch \<lparr>url = ''http://10.0.0.5:8000/detect'', http_method = ''POST'',
                 content_type = ''multipart/form-data'', field_name = ''file'',
                 file_uri = ''file:///a.jpg'', file_name = ''image.jpg'',
                 file_type = ''image/jpeg''\<rparr>])"
  using sendToBackend_preconditions [of "\<lparr>imageUri = Some ''file:///a.jpg'', backendIP = '''', detections = [],
       loading = False, originalWidth = 0, originalHeight = 0, renderedWidth = 0\<rparr>"]
    sendToBackend_preconditions [of "\<lparr>imageUri = None, backendIP = ''10.0.0.5'', detections = [],
       loading = False, originalWidth = 0, originalHeight = 0, renderedWidth = 0\<rparr>"]
    sendToBackend_preconditions [of "\<lparr>imageUri = Some ''file:///a.jpg'', backendIP = ''10.0.0.5'', detections = [],
       loading = False, originalWidth = 0, originalHeight = 0, renderedWidth = 0\<rparr>" "''file:///a.jpg''"]
  by (simp add: is_whitespace_def falsy_uri_def)

text \<open>
  Claim C8 as stated fails for an address that is not empty but blank: with the address
  \<^verbatim>\<open>" "\<close> and an image set, both stated preconditions hold, yet no request is issued and
  ``Missing IP'' is shown.
\<close>

theorem sendToBackend_preconditions_counterexample:
  "backendIP \<lparr>imageUri = Some ''file:///a.jpg'', backendIP = '' '', detections = [],
       loading = False, originalWidth = 0, originalHeight = 0, renderedWidth = 0\<rparr> \<noteq> []
   \<and> imageUri \<lparr>imageUri = Some ''file:///a.jpg'', backendIP = '' '', detections = [],
       loading = False, originalWidth = 0, originalHeight = 0, renderedWidth = 0\<rparr> \<noteq> None
   \<and> sendToBackend \<lparr>imageUri = Some ''file:///a.jpg'', backendIP = '' '', detections = [],
       loading = False, originalWidth = 0, originalHeight = 0, renderedWidth = 0\<rparr>
      = (\<lparr>imageUri = Some ''file:///a.jpg'', backendIP = '' '', detections = [],
       loading = False, originalWidth = 0, originalHeight = 0, renderedWidth = 0\<rparr>,
         [Alert ''Missing IP'' ''Please enter the backend server IP.''])"
  by (simp add: sendToBackend_def trim_def is_whitespace_def)

text \<open>
  Claim C10. When the request of \<^verbatim>\<open>sendToBackend\<close> ends in an error path (fetch rejects, the
  body cannot be read as JSON or is \<^verbatim>\<open>null\<close>, or the response is not 2xx), neither the part
  before the request nor the part after it changes \<^verbatim>\<open>detections\<close> or \<^verbatim>\<open>imageUri\<close>, whatever the
  state is when the request settles, and the loading flag is false afterwards.
\<close>

theorem error_paths_preserve:
  assumes "error_path out"
  shows "detections (fst (sendToBackend s)) = detections s
       \<and> imageUri (fst (sendToBackend s)) = imageUri s
       \<and> detections (fst (sendToBackend_resume out s')) = detections s'
       \<and> imageUri (fst (sendToBackend_resume out s')) = imageUri s'
       \<and> \<not> loading (fst (sendToBackend_resume out s'))"
proof -
  have "detections (fst (sendToBackend s)) = detections s
       \<and> imageUri (fst (sendToBackend s)) = imageUri s"
    by (simp add: sendToBackend_def)
  moreover have "detections (fst (sendToBackend_resume out s')) = detections s'
       \<and> imageUri (fst (sendToBackend_resume out s')) = imageUri s'
       \<and> \<not> loading (fst (sendToBackend_resume out s'))"
    using assms
    by (cases "(out, s')" rule: sendToBackend_resume.cases) (simp_all add: could_not_connect_def)
  ultimately show ?thesis by simp
qed

theorem error_paths_preserve_witness:
  "detections (fst (sendToBackend_resume (Response False (JObject [] (Some ''model not loaded'')))
      (fst (sendToBackend
        \<lparr>imageUri = Some ''file:///a.jpg'', backendIP = ''10.0.0.5'',
         detections = [\<lparr>cls = ''apple'', confidence = 92 / 100,
                        bbox = \<lparr>x1 = 10, y1 = 10, x2 = 50, y2 = 60\<rparr>\<rparr>],
         loading = False, originalWidth = 1000, originalHeight = 800, renderedWidth = 500\<rparr>))))
     = [\<lparr>cls = ''apple'', confidence = 92 / 100, bbox = \<lparr>x1 = 10, y1 = 10, x2 = 50, y2 = 60\<rparr>\<rparr>]
   \<and> imageUri (fst (sendToBackend_resume (Response False (JObject [] (Some ''model not loaded'')))
      (fst (sendToBackend
        \<lparr>imageUri = Some ''file:///a.jpg'', backendIP = ''10.0.0.5'',
         detections = [\<lparr>cls = ''apple'', confidence = 92 / 100,
                        bbox = \<lparr>x1 = 10, y1 = 10, x2 = 50, y2 = 60\<rparr>\<rparr>],
         loading = False, originalWidth = 1000, originalHeight = 800, renderedWidth = 500\<rparr>))))
     = Some ''file:///a.jpg''
   \<and> \<not> loading (fst (sendToBackend_resume (Response False (JObject [] (Some ''model not loaded'')))
      (fst (sendToBackend
        \<lparr>imageUri = Some ''file:///a.jpg'', backendIP = ''10.0.0.5'',
         detections = [\<lparr>cls = ''apple'', confidence = 92 / 100,
                        bbox = \<lparr>x1 = 10, y1 = 10, x2 = 50, y2 = 60\<rparr>\<rparr>],
         loading = False, originalWidth = 1000, originalHeight = 800, renderedWidth = 500\<rparr>))))"
proof -
  have e: "error_path (Response False (JObject [] (Some ''model not loaded'')))"
    by simp
  show ?thesis
    using error_paths_preserve [OF e,
        of "\<lparr>imageUri = Some ''file:///a.jpg'', backendIP = ''10.0.0.5'',
         detections = [\<lparr>cls = ''apple'', confidence = 92 / 100,
                        bbox = \<lparr>x1 = 10, y1 = 10, x2 = 50, y2 = 60\<rparr>\<rparr>],
         loading = False, originalWidth = 1000, originalHeight = 800, renderedWidth = 500\<rparr>"
        "fst (sendToBackend
        \<lparr>imageUri = Some ''file:///a.jpg'', backendIP = ''10.0.0.5'',
         detections = [\<lparr>cls = ''apple'', confidence = 92 / 100,
                        bbox = \<lparr>x1 = 10, y1 = 10, x2 = 50, y2 = 60\<rparr>\<rparr>],
         loading = False, originalWidth = 1000, originalHeight = 800, renderedWidth = 500\<rparr>)"]
    by simp
qed

text \<open>
  Claim C4, as the code has it. The response handler does not validate: on a 2xx response
  the \<^verbatim>\<open>detections\<close> array of the body replaces the stored detections as it is, every entry
  kept and in the order received. What is stored is the normalisation of the specification
  exactly when every entry received is valid.
\<close>

theorem detections_stored_as_received:
  "detections (fst (sendToBackend_resume (Response True (JObject dets err)) s)) = dets
   \<and> (detections (fst (sendToBackend_resume (Response True (JObject dets err)) s))
        = spec_normalize dets \<longleftrightarrow> (\<forall>d \<in> set dets. spec_valid d))"
proof -
  have "dets = filter spec_valid dets \<longleftrightarrow> (\<forall>d \<in> set dets. spec_valid d)"
    using filter_id_conv [of spec_valid dets] by auto
  then show ?thesis
    by (simp add: spec_normalize_def)
qed

theorem detections_stored_as_received_witness:
  "detections (fst (sendToBackend_resume
      (Response True (JObject
         [\<lparr>cls = ''apple'', confidence = 92 / 100, bbox = \<lparr>x1 = 10, y1 = 10, x2 = 50, y2 = 60\<rparr>\<rparr>]
         None))
      \<lparr>imageUri = Some ''file:///a.jpg'', backendIP = ''10.0.0.5'', detections = [],
       loading = True, originalWidth = 1000, originalHeight = 800, renderedWidth = 500\<rparr>))
    = spec_normalize
        [\<lparr>cls = ''apple'', confidence = 92 / 100, bbox = \<lparr>x1 = 10, y1 = 10, x2 = 50, y2 = 60\<rparr>\<rparr>]"
  using detections_stored_as_received [of
      "[\<lparr>cls = ''apple'', confidence = 92 / 100, bbox = \<lparr>x1 = 10, y1 = 10, x2 = 50, y2 = 60\<rparr>\<rparr>]"
      None
      "\<lparr>imageUri = Some ''file:///a.jpg'', backendIP = ''10.0.0.5'', detections = [],
       loading = True, originalWidth = 1000, originalHeight = 800, renderedWidth = 500\<rparr>"]
  by (simp add: spec_valid_def)

text \<open>
  Claim C4 as stated fails: of two entries, the second with confidence 1.5, the handler
  stores both, where the normalisation of the specification keeps the first only.
\<close>

theorem detections_stored_as_received_counterexample:
  "detections (fst (sendToBackend_resume
      (Response True (JObject
         [\<lparr>cls = ''apple'', confidence = 92 / 100, bbox = \<lparr>x1 = 10, y1 = 10, x2 = 50, y2 = 60\<rparr>\<rparr>,
          \<lparr>cls = ''pear'', confidence = 3 / 2, bbox = \<lparr>x1 = 20, y1 = 20, x2 = 40, y2 = 40\<rparr>\<rparr>]
         None))
      \<lparr>imageUri = Some ''file:///a.jpg'', backendIP = ''10.0.0.5'', detections = [],
       loading = True, originalWidth = 1000, originalHeight = 800, renderedWidth = 500\<rparr>))
    = [\<lparr>cls = ''apple'', confidence = 92 / 100, bbox = \<lparr>x1 = 10, y1 = 10, x2 = 50, y2 = 60\<rparr>\<rparr>,
       \<lparr>cls = ''pear'', confidence = 3 / 2, bbox = \<lparr>x1 = 20, y1 = 20, x2 = 40, y2 = 40\<rparr>\<rparr>]
   \<and> spec_normalize
        [\<lparr>cls = ''apple'', confidence = 92 / 100, bbox = \<lparr>x1 = 10, y1 = 10, x2 = 50, y2 = 60\<rparr>\<rparr>,
         \<lparr>cls = ''pear'', confidence = 3 / 2, bbox = \<lparr>x1 = 20, y1 = 20, x2 = 40, y2 = 40\<rparr>\<rparr>]
    = [\<lparr>cls = ''apple'', confidence = 92 / 100, bbox = \<lparr>x1 = 10, y1 = 10, x2 = 50, y2 = 60\<rparr>\<rparr>]"
  by (simp add: spec_normalize_def spec_valid_def)

subsection \<open>Capture\<close>

text \<open>
  Claim C6, as the code has it. A successful capture sets the new image URI and empties the
  detections in one transition and asks for the size of the new image; it does not clear
  the natural size, which keeps the values of the previous image until the answer to
  \<^verbatim>\<open>Image.getSize\<close> overwrites them, and keeps them for good when that call fails.
\<close>

theorem capture_transition:
  "imageUri (ui (step (PressCapture (Captured uri)) w)) = Some uri
   \<and> detections (ui (step (PressCapture (Captured uri)) w)) = []
   \<and> originalWidth (ui (step (PressCapture (Captured uri)) w)) = originalWidth (ui w)
   \<and> originalHeight (ui (step (PressCapture (Captured uri)) w)) = originalHeight (ui w)
   \<and> sizing (step (PressCapture (Captured uri)) w) = sizing w @ [uri]
   \<and> originalWidth (ui (step (SizeFailed i) w)) = originalWidth (ui w)
   \<and> originalHeight (ui (step (SizeFailed i) w)) = originalHeight (ui w)"
  by (simp add: run_handler_def pickImage_def)

text \<open>
  Claim C6 as stated fails: after a first image of 1000 x 800 has been captured and measured,
  capturing a second one leaves a state that pairs the second image with 1000 x 800 while
  its own size is still pending.
\<close>

theorem capture_transition_counterexample:
  "imageUri (ui (run [PressCapture (Captured ''file:///a.jpg''), SizeResolved 0 1000 800,
                      PressCapture (Captured ''file:///b.jpg'')] init_world))
     = Some ''file:///b.jpg''
   \<and> originalWidth (ui (run [PressCapture (Captured ''file:///a.jpg''), SizeResolved 0 1000 800,
                      PressCapture (Captured ''file:///b.jpg'')] init_world)) = 1000
   \<and> originalHeight (ui (run [PressCapture (Captured ''file:///a.jpg''), SizeResolved 0 1000 800,
                      PressCapture (Captured ''file:///b.jpg'')] init_world)) = 800
   \<and> sizing (run [PressCapture (Captured ''file:///a.jpg''), SizeResolved 0 1000 800,
                      PressCapture (Captured ''file:///b.jpg'')] init_world) = [''file:///b.jpg'']"
  by (simp add: eval_defs)

subsection \<open>Requests in flight\<close>

text \<open>
  Claim C3, as the code has it. The handler of a settling request does not look at the image
  the request was issued for: a 2xx response replaces the stored detections by those of its
  body whatever the current image is, also after the image has been replaced; no outcome
  changes the image URI, and an error outcome leaves the detections as they are.
\<close>

theorem late_response_applied:
  assumes "i < length (inflight w)"
  shows "detections (ui (step (Settled i (Response True (JObject dets err))) w)) = dets
       \<and> imageUri (ui (step (Settled i out) w)) = imageUri (ui w)
       \<and> (error_path out \<longrightarrow> detections (ui (step (Settled i out) w)) = detections (ui w))"
  using assms
  by (cases "(out, ui w)" rule: sendToBackend_resume.cases)
     (simp_all add: run_handler_def could_not_connect_def)

theorem late_response_applied_witness:
  "detections (ui (step (Settled 0 (Response True (JObject
          [\<lparr>cls = ''apple'', confidence = 92 / 100,
            bbox = \<lparr>x1 = 10, y1 = 10, x2 = 50, y2 = 60\<rparr>\<rparr>] None)))
      (run [ChangeText ''10.0.0.5'', PressCapture (Captured ''file:///a.jpg''),
        PressProcess, PressCapture (Captured ''file:///b.jpg'')] init_world)))
     = [\<lparr>cls = ''apple'', confidence = 92 / 100, bbox = \<lparr>x1 = 10, y1 = 10, x2 = 50, y2 = 60\<rparr>\<rparr>]
   \<and> detections (ui (step (Settled 0 Rejected)
      (run [ChangeText ''10.0.0.5'', PressCapture (Captured ''file:///a.jpg''),
        PressProcess, PressCapture (Captured ''file:///b.jpg'')] init_world))) = []"
proof -
  let ?w = "run [ChangeText ''10.0.0.5'', PressCapture (Captured ''file:///a.jpg''),
        PressProcess, PressCapture (Captured ''file:///b.jpg'')] init_world"
  have i: "0 < length (inflight ?w)"
    by (simp add: eval_defs)
  have d: "detections (ui ?w) = []"
    by (simp add: eval_defs)
  have e: "error_path Rejected"
    by simp
  from late_response_applied [OF i, of _ _ Rejected] e d show ?thesis
    by simp
qed

text \<open>
  Claim C3 as stated fails: a request is issued for the first image, a second image is
  captured while it is in flight, and the late 2xx response is applied to the state that
  holds the second image.
\<close>

theorem late_response_applied_counterexample:
  "map file_uri (inflight (run [ChangeText ''10.0.0.5'', PressCapture (Captured ''file:///a.jpg''),
        PressProcess, PressCapture (Captured ''file:///b.jpg'')] init_world)) = [''file:///a.jpg'']
   \<and> imageUri (ui (run [ChangeText ''10.0.0.5'', PressCapture (Captured ''file:///a.jpg''),
        PressProcess, PressCapture (Captured ''file:///b.jpg'')] init_world)) = Some ''file:///b.jpg''
   \<and> detections (ui (run [ChangeText ''10.0.0.5'', PressCapture (Captured ''file:///a.jpg''),
        PressProcess, PressCapture (Captured ''file:///b.jpg'')] init_world)) = []
   \<and> detections (ui (run [ChangeText ''10.0.0.5'', PressCapture (Captured ''file:///a.jpg''),
        PressProcess, PressCapture (Captured ''file:///b.jpg''),
        Settled 0 (Response True (JObject
          [\<lparr>cls = ''apple'', confidence = 92 / 100,
            bbox = \<lparr>x1 = 10, y1 = 10, x2 = 50, y2 = 60\<rparr>\<rparr>] None))] init_world))
     = [\<lparr>cls = ''apple'', confidence = 92 / 100, bbox = \<lparr>x1 = 10, y1 = 10, x2 = 50, y2 = 60\<rparr>\<rparr>]
   \<and> imageUri (ui (run [ChangeText ''10.0.0.5'', PressCapture (Captured ''file:///a.jpg''),
        PressProcess, PressCapture (Captured ''file:///b.jpg''),
        Settled 0 (Response True (JObject
          [\<lparr>cls = ''apple'', confidence = 92 / 100,
            bbox = \<lparr>x1 = 10, y1 = 10, x2 = 50, y2 = 60\<rparr>\<rparr>] None))] init_world))
     = Some ''file:///b.jpg''"
  by (simp add: eval_defs)

text \<open>The process button is the only caller of \<^verbatim>\<open>sendToBackend\<close>, and it is disabled while loading.\<close>

lemma inflight_run_handler_pickImage [simp]:
  "inflight (run_handler (pickImage c) w) = inflight w"
  "loading (ui (run_handler (pickImage c) w)) = loading (ui w)"
  by (cases c; simp add: run_handler_def pickImage_def)+

lemma inflight_invariant:
  "reachable w \<Longrightarrow> length (inflight w) \<le> 1 \<and> (loading (ui w) \<longleftrightarrow> inflight w \<noteq> [])"
proof (induction rule: reachable.induct)
  case start
  then show ?case by (simp add: init_world_def initial_def)
next
  case (next_event w e)
  show ?case
  proof (cases e)
    case (Settled i out)
    show ?thesis
    proof (cases "i < length (inflight w)")
      case True
      with next_event.IH have one: "inflight w = [inflight w ! 0]" "i = 0"
        by (cases "inflight w"; simp)+
      have "inflight (run_handler (sendToBackend_resume out) (w\<lparr>inflight := []\<rparr>)) = []
          \<and> \<not> loading (ui (run_handler (sendToBackend_resume out) (w\<lparr>inflight := []\<rparr>)))"
        by (cases "(out, ui w)" rule: sendToBackend_resume.cases)
           (simp_all add: run_handler_def could_not_connect_def)
      moreover have "remove_nth i (inflight w) = []"
        using one by (metis append_Nil drop0 drop_Suc_Cons remove_nth_def take0)
      ultimately show ?thesis
        using Settled True by simp
    next
      case False
      with Settled next_event.IH show ?thesis by simp
    qed
  next
    case PressProcess
    with next_event.IH show ?thesis
      by (auto simp add: press_processButton_def run_handler_def sendToBackend_def)
  qed (use next_event.IH in \<open>simp_all add: getSize_success_def onLayout_def\<close>)
qed

lemma reachable_run: "reachable w \<Longrightarrow> reachable (run es w)"
  by (induction es arbitrary: w) (simp_all add: reachable.next_event)

text \<open>
  Claim C5, as the code has it. Along every sequence of events of the screen at most one
  request is in flight, and while one is in flight the loading flag is set and the process
  button is disabled: pressing it changes nothing, so no second request is issued and no
  alert is shown. There is no error ``already in progress'', and \<^verbatim>\<open>sendToBackend\<close> itself does
  not test the loading flag.
\<close>

theorem second_press_ignored:
  assumes "reachable w" and "inflight w \<noteq> []"
  shows "loading (ui w) \<and> length (inflight w) = 1 \<and> step PressProcess w = w"
proof -
  from inflight_invariant [OF assms(1)] assms(2)
  have "loading (ui w)" and "length (inflight w) = 1"
    by (cases "inflight w"; simp)+
  then show ?thesis
    by (simp add: press_processButton_def)
qed

theorem second_press_ignored_witness:
  "inflight (run [ChangeText ''10.0.0.5'', PressCapture (Captured ''file:///a.jpg''), PressProcess]
      init_world)
     = [\<lparr>url = ''http://10.0.0.5:8000/detect'', http_method = ''POST'',
         content_type = ''multipart/form-data'', field_name = ''file'',
         file_uri = ''file:///a.jpg'', file_name = ''image.jpg'', file_type = ''image/jpeg''\<rparr>]
   \<and> step PressProcess
       (run [ChangeText ''10.0.0.5'', PressCapture (Captured ''file:///a.jpg''), PressProcess]
          init_world)
     = run [ChangeText ''10.0.0.5'', PressCapture (Captured ''file:///a.jpg''), PressProcess]
         init_world"
proof -
  let ?w = "run [ChangeText ''10.0.0.5'', PressCapture (Captured ''file:///a.jpg''), PressProcess]
      init_world"
  have r: "reachable ?w"
    by (rule reachable_run) (rule reachable.start)
  have i: "inflight ?w = [\<lparr>url = ''http://10.0.0.5:8000/detect'', http_method = ''POST'',
         content_type = ''multipart/form-data'', field_name = ''file'',
         file_uri = ''file:///a.jpg'', file_name = ''image.jpg'', file_type = ''image/jpeg''\<rparr>]"
    by (simp add: eval_defs)
  then have "inflight ?w \<noteq> []" by simp
  from second_press_ignored [OF r this] i show ?thesis by simp
qed

text \<open>
  Claim C5 as stated fails: called while its request for the current image is in flight,
  \<^verbatim>\<open>sendToBackend\<close> issues a second request for the same image and shows no alert.
\<close>

theorem second_press_ignored_counterexample:
  "map file_uri (inflight (run [ChangeText ''10.0.0.5'', PressCapture (Captured ''file:///a.jpg''),
      PressProcess] init_world)) = [''file:///a.jpg'']
   \<and> imageUri (ui (run [ChangeText ''10.0.0.5'', PressCapture (Captured ''file:///a.jpg''),
      PressProcess] init_world)) = Some ''file:///a.jpg''
   \<and> map file_uri (inflight (run_handler sendToBackend
        (run [ChangeText ''10.0.0.5'', PressCapture (Captured ''file:///a.jpg''),
      PressProcess] init_world))) = [''file:///a.jpg'', ''file:///a.jpg'']
   \<and> alerts (run_handler sendToBackend
        (run [ChangeText ''10.0.0.5'', PressCapture (Captured ''file:///a.jpg''),
      PressProcess] init_world)) = []"
  by (simp add: eval_defs)

end
